theory Spec2Isabelle
  imports Main
begin

section \<open>Time values\<close>

text \<open>
  The credential compares and shifts instants of Go's \<^verbatim>\<open>time.Time\<close>. An instant is
  modelled as the integer number of nanoseconds since the zero \<^verbatim>\<open>Time\<close> (January 1,
  year 1, 00:00:00 UTC), a \<^verbatim>\<open>time.Duration\<close> as an integer number of nanoseconds.
  A \<^verbatim>\<open>Time\<close> holds a signed 64-bit count of seconds since the zero time and a count
  of nanoseconds below one second: the instants it can hold are the \<open>representable\<close>
  ones. Instants are compared on one time line (wall clock and monotonic clock are not
  told apart). \<^verbatim>\<open>time.Now()\<close> is an input of the model: every call site that reads
  the clock takes its reading as an argument.
\<close>

type_synonym time = int
type_synonym duration = int

definition zeroTime :: time where
  "zeroTime = 0"

definition Second :: duration where
  "Second = 1000000000"

definition Minute :: duration where
  "Minute = 60 * Second"

definition representable :: "time \<Rightarrow> bool" where
  "representable t = (- (2 ^ 63) \<le> t div Second \<and> t div Second \<le> 2 ^ 63 - 1)"

definition Before :: "time \<Rightarrow> time \<Rightarrow> bool" where
  "Before t u = (t < u)"

text \<open>The value an integer takes as an \<^verbatim>\<open>int64\<close>: arithmetic on it wraps around.\<close>

definition int64 :: "int \<Rightarrow> int" where
  "int64 x = (x + 2 ^ 63) mod 2 ^ 64 - 2 ^ 63"

text \<open>Go's integer division and remainder, which truncate towards zero.\<close>

definition go_quo :: "int \<Rightarrow> int \<Rightarrow> int" where
  "go_quo a b = sgn a * sgn b * (\<bar>a\<bar> div \<bar>b\<bar>)"

definition go_rem :: "int \<Rightarrow> int \<Rightarrow> int" where
  "go_rem a b = a - b * go_quo a b"

text \<open>
  \<^verbatim>\<open>Time.addSec\<close> on the count of seconds: the sum is formed in 64 bits, and when it
  has overflowed the count is set to the bound \<open>2 ^ 63 - 1\<close> or \<open>- (2 ^ 63 - 1)\<close> on the
  side of the overflow.
\<close>

definition addSec :: "int \<Rightarrow> int \<Rightarrow> int" where
  "addSec ext d =
     (let sum = int64 (ext + d) in
      if (sum > ext) = (d > 0) then sum
      else if d > 0 then 2 ^ 63 - 1
      else - (2 ^ 63 - 1))"

text \<open>
  \<^verbatim>\<open>Time.Add\<close>: the duration is split into seconds and nanoseconds, the nanoseconds
  are added and carried into the seconds, and the seconds are added by \<open>addSec\<close>. A
  \<^verbatim>\<open>Time\<close> that carries a monotonic reading lies between the years 1885 and 2157,
  where the sum of the seconds does not overflow.
\<close>

definition Add :: "time \<Rightarrow> duration \<Rightarrow> time" where
  "Add t d =
     (let dsec = go_quo d 1000000000;
          nsec = t mod Second + go_rem d 1000000000;
          dsec1 = (if nsec \<ge> 1000000000 then dsec + 1 else if nsec < 0 then dsec - 1 else dsec);
          nsec1 = (if nsec \<ge> 1000000000 then nsec - 1000000000
                   else if nsec < 0 then nsec + 1000000000 else nsec)
      in addSec (t div Second) dsec1 * Second + nsec1)"

section \<open>Data\<close>

text \<open>\<^verbatim>\<open>oauth2.Token\<close>: the bearer value and its declared expiry.\<close>

record Token =
  AccessToken :: string
  TokenType :: string
  RefreshToken :: string
  Expiry :: time

definition zeroToken :: Token where
  "zeroToken = \<lparr>AccessToken = '''', TokenType = '''', RefreshToken = '''', Expiry = zeroTime\<rparr>"

text \<open>
  \<^verbatim>\<open>WorkloadIdentityFederationCredentialOptions\<close>. The embedded
  \<^verbatim>\<open>azcore.ClientOptions\<close> is a struct of another package: a type parameter whose
  \<open>0\<close> stands for its Go zero value.
\<close>

record 'co WorkloadIdentityFederationCredentialOptions =
  ClientOptions :: 'co
  AdditionallyAllowedTenants :: "string list"
  ClientID :: string
  DisableInstanceDiscovery :: bool
  TenantID :: string
  FederatedToken :: Token

definition zeroOptions :: "('co::zero) WorkloadIdentityFederationCredentialOptions" where
  "zeroOptions =
     \<lparr>ClientOptions = 0, AdditionallyAllowedTenants = [], ClientID = '''',
      DisableInstanceDiscovery = False, TenantID = '''', FederatedToken = zeroToken\<rparr>"

text \<open>\<^verbatim>\<open>azidentity.ClientAssertionCredentialOptions\<close>, as the constructor fills it.\<close>

record 'co ClientAssertionCredentialOptions =
  caco_AdditionallyAllowedTenants :: "string list"
  caco_ClientOptions :: 'co
  caco_DisableInstanceDiscovery :: bool

text \<open>
  \<^verbatim>\<open>WorkloadIdentityFederationCredential\<close>. The field \<^verbatim>\<open>cred\<close> is a pointer, nil
  until the constructor stores the collaborator. The lock \<^verbatim>\<open>mtx\<close> is allocated by the
  constructor and never reassigned; the model is sequential (one caller at a time) and
  keeps no lock state.
\<close>

record 'cred WorkloadIdentityFederationCredential =
  assertion :: string
  token :: Token
  cred :: "'cred option"
  expires :: time

text \<open>
  Go's \<^verbatim>\<open>error\<close> values: the three package-level errors, and an error handed
  back by the collaborator's constructor (known by its message), which the constructor
  returns as it is. The package-level errors are unexported variables, so no error of
  the collaborator is one of them.
\<close>

datatype error =
    errorClientIDNotSpecified
  | errorTokenNotSpecified
  | errorTenantIDNotSpecified
  | collaboratorError string

section \<open>Environment\<close>

type_synonym environ = "string \<rightharpoonup> string"

definition azureClientID :: string where
  "azureClientID = ''AZURE_CLIENT_ID''"

definition azureTenantID :: string where
  "azureTenantID = ''AZURE_TENANT_ID''"

definition azureFederatedTokentoken :: string where
  "azureFederatedTokentoken = ''AZURE_FEDERATED_TOKEN''"

text \<open>\<^verbatim>\<open>os.LookupEnv\<close>: the value and whether the variable is set.\<close>

definition LookupEnv :: "environ \<Rightarrow> string \<Rightarrow> string \<times> bool" where
  "LookupEnv env key = (case env key of None \<Rightarrow> ('''', False) | Some v \<Rightarrow> (v, True))"

section \<open>The constructor\<close>

text \<open>Lines 64-66: a nil options pointer is replaced by a pointer to the zero options.\<close>

definition defaultOptions ::
  "('co::zero) WorkloadIdentityFederationCredentialOptions option \<Rightarrow>
   'co WorkloadIdentityFederationCredentialOptions" where
  "defaultOptions options0 = (case options0 of None \<Rightarrow> zeroOptions | Some p \<Rightarrow> p)"

text \<open>Lines 68-73: the client ID, from the options or else from the environment.\<close>

definition resolveClientID ::
  "environ \<Rightarrow> 'co WorkloadIdentityFederationCredentialOptions \<Rightarrow> error + string" where
  "resolveClientID env options =
     (let clientID = ClientID options in
      if clientID = '''' then
        (case LookupEnv env azureClientID of
           (clientID, ok) \<Rightarrow> if \<not> ok then Inl errorClientIDNotSpecified else Inr clientID)
      else Inr clientID)"

text \<open>
  Lines 74-79: the token is a copy of the options' token; when its value is empty, only
  the field \<^verbatim>\<open>AccessToken\<close> of the copy is overwritten from the environment.
\<close>

definition resolveToken ::
  "environ \<Rightarrow> 'co WorkloadIdentityFederationCredentialOptions \<Rightarrow> error + Token" where
  "resolveToken env options =
     (let token = FederatedToken options in
      if AccessToken token = '''' then
        (case LookupEnv env azureFederatedTokentoken of
           (v, ok) \<Rightarrow>
             (let token = token\<lparr>AccessToken := v\<rparr> in
              if \<not> ok \<or> AccessToken token = '''' then Inl errorTokenNotSpecified
              else Inr token))
      else Inr token)"

text \<open>Lines 80-85: the tenant ID.\<close>

definition resolveTenantID ::
  "environ \<Rightarrow> 'co WorkloadIdentityFederationCredentialOptions \<Rightarrow> error + string" where
  "resolveTenantID env options =
     (let tenantID = TenantID options in
      if tenantID = '''' then
        (case LookupEnv env azureTenantID of
           (tenantID, ok) \<Rightarrow> if \<not> ok then Inl errorTenantIDNotSpecified else Inr tenantID)
      else Inr tenantID)"

text \<open>
  Lines 86-98. \<^verbatim>\<open>azidentity.NewClientAssertionCredential\<close> belongs to another
  package and is the parameter \<open>newCAC\<close>; it receives the tenant ID, the client ID and
  the options (the callback it also receives is \<^verbatim>\<open>w.getAssertion\<close>, which it keeps
  for later token requests). The fields \<^verbatim>\<open>assertion\<close> and \<^verbatim>\<open>expires\<close> are not
  mentioned by the struct literal and hold their zero values.
\<close>

definition construct ::
  "(string \<Rightarrow> string \<Rightarrow> 'co ClientAssertionCredentialOptions \<Rightarrow> string + 'cred) \<Rightarrow>
   'co WorkloadIdentityFederationCredentialOptions \<Rightarrow> string \<Rightarrow> Token \<Rightarrow> string \<Rightarrow>
   error + 'cred WorkloadIdentityFederationCredential" where
  "construct newCAC options clientID tok tenantID =
     (let w = \<lparr>assertion = '''', token = tok, cred = None, expires = zeroTime\<rparr>;
          caco = \<lparr>caco_AdditionallyAllowedTenants = AdditionallyAllowedTenants options,
                  caco_ClientOptions = ClientOptions options,
                  caco_DisableInstanceDiscovery = DisableInstanceDiscovery options\<rparr>
      in case newCAC tenantID clientID caco of
           Inl e \<Rightarrow> Inl (collaboratorError e)
         | Inr c \<Rightarrow> Inr (w\<lparr>cred := Some c\<rparr>))"

text \<open>
  \<^verbatim>\<open>NewWorkloadIdentityFederationCredential\<close>, lines 63-99: the three fields are
  resolved in the order client ID, token, tenant ID, each early return being an
  \<open>Inl\<close>.
\<close>

definition NewWorkloadIdentityFederationCredential ::
  "(string \<Rightarrow> string \<Rightarrow> ('co::zero) ClientAssertionCredentialOptions \<Rightarrow> string + 'cred) \<Rightarrow>
   environ \<Rightarrow> 'co WorkloadIdentityFederationCredentialOptions option \<Rightarrow>
   error + 'cred WorkloadIdentityFederationCredential" where
  "NewWorkloadIdentityFederationCredential newCAC env options0 =
     (let options = defaultOptions options0 in
      case resolveClientID env options of
        Inl e \<Rightarrow> Inl e
      | Inr clientID \<Rightarrow>
          (case resolveToken env options of
             Inl e \<Rightarrow> Inl e
           | Inr tok \<Rightarrow>
               (case resolveTenantID env options of
                  Inl e \<Rightarrow> Inl e
                | Inr tenantID \<Rightarrow> construct newCAC options clientID tok tenantID)))"

section \<open>The cached assertion\<close>

text \<open>
  Which way a call of \<^verbatim>\<open>getAssertion\<close> went: the read-locked fast path (lines
  120-122), the write-locked recomputation (lines 116-118), or the write-locked path
  whose second test found the cache fresh.
\<close>

datatype branch = FastPath | Refresh | NoRefresh

record 'cred outcome =
  ret :: string
  err :: "error option"
  state :: "'cred WorkloadIdentityFederationCredential"
  path :: branch

text \<open>
  \<^verbatim>\<open>getAssertion\<close>, lines 107-124. \<open>now1\<close> is the clock reading of line 109 and
  \<open>now2\<close> the one of line 115, read only on the slow path. The returned error is always
  nil (\<open>None\<close>).
\<close>

definition getAssertion ::
  "'cred WorkloadIdentityFederationCredential \<Rightarrow> time \<Rightarrow> time \<Rightarrow> 'cred outcome" where
  "getAssertion w now1 now2 =
     (if Before (expires w) now1 then
        (if Before (expires w) now2 then
           (let w1 = w\<lparr>assertion := AccessToken (token w)\<rparr>;
                w2 = w1\<lparr>expires := Add (Expiry (token w1)) (- 10 * Minute)\<rparr>
            in \<lparr>ret = assertion w2, err = None, state = w2, path = Refresh\<rparr>)
         else \<lparr>ret = assertion w, err = None, state = w, path = NoRefresh\<rparr>)
      else \<lparr>ret = assertion w, err = None, state = w, path = FastPath\<rparr>)"

text \<open>
  A caller that invokes \<^verbatim>\<open>getAssertion\<close> once per pair of clock readings, one call
  after the other on the same credential, and collects the outcomes.
\<close>

fun getAssertion_calls ::
  "'cred WorkloadIdentityFederationCredential \<Rightarrow> (time \<times> time) list \<Rightarrow> 'cred outcome list" where
  "getAssertion_calls w [] = []"
| "getAssertion_calls w (c # cs) =
     (let r = getAssertion w (fst c) (snd c) in r # getAssertion_calls (state r) cs)"

section \<open>Concrete scenarios\<close>

text \<open>
  Two stand-ins for the collaborator's constructor at concrete inputs: one always
  succeeds and keeps the tenant ID and the client ID it was given, the other always
  fails.
\<close>

definition acceptingCollaborator ::
  "string \<Rightarrow> string \<Rightarrow> nat ClientAssertionCredentialOptions \<Rightarrow> string + (string \<times> string)" where
  "acceptingCollaborator tenantID clientID caco = Inr (tenantID, clientID)"

definition rejectingCollaborator ::
  "string \<Rightarrow> string \<Rightarrow> nat ClientAssertionCredentialOptions \<Rightarrow> string + (string \<times> string)" where
  "rejectingCollaborator tenantID clientID caco = Inl ''invalid tenantID''"

text \<open>The environment of the specification's first end-to-end scenario.\<close>

definition scenarioEnv :: environ where
  "scenarioEnv =
     [azureClientID \<mapsto> ''abc'', azureTenantID \<mapsto> ''def'', azureFederatedTokentoken \<mapsto> ''tok1'']"

text \<open>Options that override all three fields.\<close>

definition overridingOptions :: "nat WorkloadIdentityFederationCredentialOptions" where
  "overridingOptions =
     \<lparr>ClientOptions = 0, AdditionallyAllowedTenants = [], ClientID = ''opt-client'',
      DisableInstanceDiscovery = False, TenantID = ''opt-tenant'',
      FederatedToken = zeroToken\<lparr>AccessToken := ''opt-token''\<rparr>\<rparr>"

text \<open>A clock reading in the year 2025, in nanoseconds since the zero time.\<close>

definition scenarioNow :: time where
  "scenarioNow = 63900000000 * Second"

text \<open>
  The credential the constructor returns in \<open>scenarioEnv\<close> with the accepting
  collaborator, for a token whose expiry is \<open>E\<close>.
\<close>

definition scenarioCredential :: "time \<Rightarrow> (string \<times> string) WorkloadIdentityFederationCredential" where
  "scenarioCredential E =
     \<lparr>assertion = '''', token = zeroToken\<lparr>AccessToken := ''tok1'', Expiry := E\<rparr>,
      cred = Some (''def'', ''abc''), expires = zeroTime\<rparr>"

text \<open>An expiry 100 seconds after the earliest instant a \<^verbatim>\<open>Time\<close> can hold.\<close>

definition earlyExpiry :: time where
  "earlyExpiry = (- (2 ^ 63) + 100) * Second"

section \<open>Auxiliary facts\<close>

lemmas time_defs = Before_def Minute_def Second_def zeroTime_def

lemmas env_defs = azureClientID_def azureTenantID_def azureFederatedTokentoken_def

lemmas resolve_defs = resolveClientID_def resolveToken_def resolveTenantID_def LookupEnv_def

lemmas scenario_defs = scenarioEnv_def scenarioNow_def scenarioCredential_def
  acceptingCollaborator_def rejectingCollaborator_def overridingOptions_def
  earlyExpiry_def env_defs

text \<open>Subtracting 10 minutes from a representable instant.\<close>

lemma margin_split:
  "go_quo (- 10 * Minute) 1000000000 = - 600 \<and> go_rem (- 10 * Minute) 1000000000 = 0"
  by (simp add: go_quo_def go_rem_def Minute_def Second_def)

lemma int64_in_range:
  "- (2 ^ 63) \<le> x \<Longrightarrow> x \<le> 2 ^ 63 - 1 \<Longrightarrow> int64 x = x"
  by (simp add: int64_def)

lemma int64_below:
  assumes "- (2 ^ 63) - 2 ^ 63 \<le> x" and "x < - (2 ^ 63)"
  shows "int64 x = x + 2 ^ 64"
proof -
  have "(x + 2 ^ 63) mod 2 ^ 64 = (x + 2 ^ 63 + 2 ^ 64) mod (2 ^ 64 :: int)"
    by (rule mod_add_self2 [symmetric])
  also have "\<dots> = x + 2 ^ 63 + 2 ^ 64"
    using assms by (intro mod_pos_pos_trivial) simp_all
  finally show ?thesis
    by (simp add: int64_def)
qed

lemma addSec_margin:
  assumes "- (2 ^ 63) \<le> s" and "s \<le> 2 ^ 63 - 1"
  shows "addSec s (- 600) = (if - (2 ^ 63) + 600 \<le> s then s - 600 else - (2 ^ 63 - 1))"
proof (cases "- (2 ^ 63) + 600 \<le> s")
  case True
  then have "int64 (s + - 600) = s - 600"
    using assms by (intro int64_in_range [THEN trans]) simp_all
  then show ?thesis
    using True by (simp add: addSec_def Let_def)
next
  case False
  then have "int64 (s + - 600) = s - 600 + 2 ^ 64"
    using assms by (intro int64_below [THEN trans]) simp_all
  then show ?thesis
    using False assms by (simp add: addSec_def Let_def)
qed

lemma Add_margin:
  assumes "representable t"
  shows "Add t (- 10 * Minute) =
           (if - (2 ^ 63) + 600 \<le> t div Second then t - 10 * Minute
            else - (2 ^ 63 - 1) * Second + t mod Second)"
proof -
  have nsec: "0 \<le> t mod Second" "t mod Second < 1000000000"
    by (simp_all add: Second_def)
  have "Add t (- 10 * Minute) = addSec (t div Second) (- 600) * Second + t mod Second"
    using nsec margin_split by (simp add: Add_def Let_def)
  also have "\<dots> =
      (if - (2 ^ 63) + 600 \<le> t div Second then (t div Second - 600) * Second + t mod Second
       else - (2 ^ 63 - 1) * Second + t mod Second)"
    using assms by (simp add: addSec_margin representable_def)
  also have "(t div Second - 600) * Second + t mod Second = t - 10 * Minute"
  proof -
    have "t div Second * Second + t mod Second = t"
      by simp
    then show ?thesis
      by (simp add: algebra_simps Minute_def)
  qed
  finally show ?thesis .
qed

lemma margin_div: "(t - 10 * Minute) div Second = t div Second - 600"
proof -
  have "(t + (- 600) * Second) div Second = - 600 + t div Second"
    by (rule div_mult_self1) (simp add: Second_def)
  then show ?thesis
    by (simp add: Minute_def)
qed

lemma Add_zeroTime: "Add zeroTime (- 10 * Minute) = - 600000000000"
proof -
  have "representable zeroTime"
    by (simp add: representable_def zeroTime_def Second_def)
  from Add_margin [OF this] show ?thesis
    by (simp add: zeroTime_def Second_def Minute_def)
qed

text \<open>The same two cases on numerals, for the evaluation of concrete calls.\<close>

lemma Add_margin_exact:
  assumes "- 9223372036854775208 \<le> t div 1000000000"
    and "t div 1000000000 \<le> 9223372036854775807"
  shows "Add t (- 600000000000) = t - 600000000000"
proof -
  have "representable t"
    using assms by (simp add: representable_def Second_def)
  from Add_margin [OF this] show ?thesis
    using assms by (simp add: Second_def Minute_def)
qed

lemma Add_margin_saturated:
  assumes "- 9223372036854775808 \<le> t div 1000000000"
    and "t div 1000000000 < - 9223372036854775208"
  shows "Add t (- 600000000000) = - 9223372036854775807000000000 + t mod 1000000000"
proof -
  have "representable t"
    using assms by (simp add: representable_def Second_def)
  from Add_margin [OF this] show ?thesis
    using assms by (simp add: Second_def Minute_def)
qed

lemmas Add_eval = Add_margin_exact Add_margin_saturated

text \<open>The three paths of \<^verbatim>\<open>getAssertion\<close>.\<close>

lemma getAssertion_path_cases:
  "getAssertion w now1 now2 =
     (if expires w < now1 then
        (if expires w < now2 then
           \<lparr>ret = AccessToken (token w), err = None,
            state = w\<lparr>assertion := AccessToken (token w),
                      expires := Add (Expiry (token w)) (- 10 * Minute)\<rparr>,
            path = Refresh\<rparr>
         else \<lparr>ret = assertion w, err = None, state = w, path = NoRefresh\<rparr>)
      else \<lparr>ret = assertion w, err = None, state = w, path = FastPath\<rparr>)"
  by (simp add: getAssertion_def Let_def Before_def)

lemma getAssertion_calls_length:
  "length (getAssertion_calls w clocks) = length clocks"
  by (induction clocks arbitrary: w) (simp_all add: Let_def)

text \<open>The constructor as a chain of the three resolutions and the construction.\<close>

lemma New_unfold:
  "NewWorkloadIdentityFederationCredential newCAC env options0 =
     (case resolveClientID env (defaultOptions options0) of
        Inl e \<Rightarrow> Inl e
      | Inr clientID \<Rightarrow>
          (case resolveToken env (defaultOptions options0) of
             Inl e \<Rightarrow> Inl e
           | Inr tok \<Rightarrow>
               (case resolveTenantID env (defaultOptions options0) of
                  Inl e \<Rightarrow> Inl e
                | Inr tenantID \<Rightarrow>
                    construct newCAC (defaultOptions options0) clientID tok tenantID)))"
  by (simp add: NewWorkloadIdentityFederationCredential_def Let_def)

lemmas New_eval = New_unfold defaultOptions_def zeroOptions_def zeroToken_def resolve_defs
  construct_def Let_def

lemma resolveClientID_option:
  "ClientID opts \<noteq> '''' \<Longrightarrow> resolveClientID env opts = Inr (ClientID opts)"
  by (simp add: resolveClientID_def Let_def)

lemma resolveToken_option:
  "AccessToken (FederatedToken opts) \<noteq> '''' \<Longrightarrow>
   resolveToken env opts = Inr (FederatedToken opts)"
  by (simp add: resolveToken_def Let_def)

lemma resolveTenantID_option:
  "TenantID opts \<noteq> '''' \<Longrightarrow> resolveTenantID env opts = Inr (TenantID opts)"
  by (simp add: resolveTenantID_def Let_def)

lemma resolveClientID_env:
  "ClientID opts = '''' \<Longrightarrow>
   resolveClientID env opts =
     (case env azureClientID of None \<Rightarrow> Inl errorClientIDNotSpecified | Some v \<Rightarrow> Inr v)"
  by (simp add: resolveClientID_def LookupEnv_def Let_def split: option.splits)

lemma resolveTenantID_env:
  "TenantID opts = '''' \<Longrightarrow>
   resolveTenantID env opts =
     (case env azureTenantID of None \<Rightarrow> Inl errorTenantIDNotSpecified | Some v \<Rightarrow> Inr v)"
  by (simp add: resolveTenantID_def LookupEnv_def Let_def split: option.splits)

lemma resolveToken_env:
  "AccessToken (FederatedToken opts) = '''' \<Longrightarrow>
   resolveToken env opts =
     (case env azureFederatedTokentoken of
        None \<Rightarrow> Inl errorTokenNotSpecified
      | Some v \<Rightarrow>
          if v = '''' then Inl errorTokenNotSpecified
          else Inr ((FederatedToken opts)\<lparr>AccessToken := v\<rparr>))"
  by (simp add: resolveToken_def LookupEnv_def Let_def split: option.splits)

lemma construct_no_config_error:
  "construct newCAC opts cid tok tid \<noteq> Inl errorClientIDNotSpecified \<and>
   construct newCAC opts cid tok tid \<noteq> Inl errorTokenNotSpecified \<and>
   construct newCAC opts cid tok tid \<noteq> Inl errorTenantIDNotSpecified"
  by (simp add: construct_def Let_def split: sum.splits)

lemma defaultOptions_None_Expiry:
  "Expiry (FederatedToken (defaultOptions None)) = zeroTime"
  by (simp add: defaultOptions_def zeroOptions_def zeroToken_def)

text \<open>
  Once the cached assertion equals the token's value, or as long as the cached expiry is
  not after the zero time, every call made while the clock is after the zero time
  returns the token's value.
\<close>

lemma getAssertion_calls_cached:
  assumes "AccessToken (token w) = a"
    and "assertion w = a \<or> expires w \<le> zeroTime"
    and "\<forall>k \<in> set clocks. Before zeroTime (fst k) \<and> Before zeroTime (snd k)"
  shows "list_all (\<lambda>r. ret r = a \<and> err r = None) (getAssertion_calls w clocks)"
  using assms
proof (induction clocks arbitrary: w)
  case Nil
  then show ?case by simp
next
  case (Cons k ks)
  let ?r = "getAssertion w (fst k) (snd k)"
  have pos: "0 < fst k" "0 < snd k"
    using Cons.prems(3) by (simp_all add: time_defs)
  have here: "ret ?r = a \<and> err ?r = None"
    using Cons.prems(1,2) pos by (auto simp: getAssertion_path_cases time_defs)
  have tok: "AccessToken (token (state ?r)) = a"
    using Cons.prems(1) by (simp add: getAssertion_path_cases)
  have inv: "assertion (state ?r) = a \<or> expires (state ?r) \<le> zeroTime"
    using Cons.prems(1,2) by (auto simp: getAssertion_path_cases)
  have rest: "list_all (\<lambda>r. ret r = a \<and> err r = None) (getAssertion_calls (state ?r) ks)"
    using Cons.IH [OF tok inv] Cons.prems(3) by simp
  show ?case
    using here rest by (simp add: Let_def)
qed

text \<open>
  With a token whose expiry is the zero time, the recomputed expiry is again before the
  zero time, so every call made while the clock is after the zero time recomputes.
\<close>

lemma getAssertion_calls_zero_expiry:
  assumes "Expiry (token w) = zeroTime"
    and "expires w \<le> zeroTime"
    and "\<forall>k \<in> set clocks. Before zeroTime (fst k) \<and> Before zeroTime (snd k)"
  shows "list_all (\<lambda>r. path r = Refresh \<and> expires (state r) = Add zeroTime (- 10 * Minute))
           (getAssertion_calls w clocks)"
  using assms
proof (induction clocks arbitrary: w)
  case Nil
  then show ?case by simp
next
  case (Cons k ks)
  let ?r = "getAssertion w (fst k) (snd k)"
  have pos: "0 < fst k" "0 < snd k"
    using Cons.prems(3) by (simp_all add: time_defs)
  have here: "path ?r = Refresh \<and> expires (state ?r) = Add zeroTime (- 10 * Minute)"
    using Cons.prems(1,2) pos by (simp add: getAssertion_path_cases time_defs)
  have tok: "Expiry (token (state ?r)) = zeroTime"
    using Cons.prems(1) by (simp add: getAssertion_path_cases)
  have inv: "expires (state ?r) \<le> zeroTime"
    using here Add_zeroTime by (simp add: zeroTime_def)
  have rest: "list_all (\<lambda>r. path r = Refresh \<and> expires (state r) = Add zeroTime (- 10 * Minute))
      (getAssertion_calls (state ?r) ks)"
    using Cons.IH [OF tok inv] Cons.prems(3) by simp
  show ?case
    using here rest by (simp add: Let_def)
qed

section \<open>The expiry margin\<close>

text \<open>
  A token whose expiry lies 100 seconds after the earliest instant a \<^verbatim>\<open>Time\<close> can
  hold: the constructor returns a credential with that token, the call at
  \<open>scenarioNow\<close> takes the refresh branch, and the subtraction of 10 minutes stops at
  the lower bound of the seconds: the cached expiry is the token's expiry minus 99
  seconds, not minus 10 minutes.
\<close>

theorem refresh_near_earliest_instant:
  "representable earlyExpiry \<and>
   NewWorkloadIdentityFederationCredential acceptingCollaborator scenarioEnv
     (Some (zeroOptions\<lparr>FederatedToken := zeroToken\<lparr>Expiry := earlyExpiry\<rparr>\<rparr>)) =
     Inr (scenarioCredential earlyExpiry) \<and>
   path (getAssertion (scenarioCredential earlyExpiry) scenarioNow scenarioNow) = Refresh \<and>
   expires (state (getAssertion (scenarioCredential earlyExpiry) scenarioNow scenarioNow)) =
     earlyExpiry - 99 * Second \<and>
   expires (state (getAssertion (scenarioCredential earlyExpiry) scenarioNow scenarioNow)) \<noteq>
     earlyExpiry - 10 * Minute"
  by (simp add: scenario_defs New_eval getAssertion_path_cases time_defs representable_def
      Add_eval)

text \<open>
  C1, as amended. For a credential \<open>w\<close> whose token has a representable expiry
  \<open>Expiry (token w)\<close>: a call of \<^verbatim>\<open>getAssertion\<close> that takes the refresh branch
  leaves the cached expiry at exactly that expiry minus 10 minutes whenever that
  instant is representable, that is, whenever the expiry lies at least 10 minutes after
  the earliest instant a \<^verbatim>\<open>Time\<close> can hold; for an earlier expiry it leaves the
  cached expiry at the lower bound of the seconds, \<open>- (2 ^ 63 - 1)\<close>, with the expiry's
  nanoseconds. A call that does not take the refresh branch leaves the cached expiry as
  it was; no call changes the token; and the constructor, the only other code that
  touches the credential, does not assign the field, which holds its zero value in the
  credential it returns.
\<close>

theorem expiry_margin:
  "(path (getAssertion w now1 now2) = Refresh \<and> representable (Expiry (token w)) \<and>
    representable (Expiry (token w) - 10 * Minute) \<longrightarrow>
      expires (state (getAssertion w now1 now2)) = Expiry (token w) - 10 * Minute) \<and>
   (path (getAssertion w now1 now2) = Refresh \<and> representable (Expiry (token w)) \<and>
    \<not> representable (Expiry (token w) - 10 * Minute) \<longrightarrow>
      expires (state (getAssertion w now1 now2)) =
        - (2 ^ 63 - 1) * Second + Expiry (token w) mod Second) \<and>
   (representable (Expiry (token w) - 10 * Minute) =
      (- (2 ^ 63) + 600 \<le> Expiry (token w) div Second \<and>
       Expiry (token w) div Second \<le> 2 ^ 63 + 599)) \<and>
   (path (getAssertion w now1 now2) \<noteq> Refresh \<longrightarrow>
      expires (state (getAssertion w now1 now2)) = expires w) \<and>
   token (state (getAssertion w now1 now2)) = token w \<and>
   (NewWorkloadIdentityFederationCredential newCAC env options0 = Inr w0 \<longrightarrow>
      expires w0 = zeroTime)"
proof -
  let ?E = "Expiry (token w)"
  let ?r = "getAssertion w now1 now2"
  have range: "representable (?E - 10 * Minute) =
      (- (2 ^ 63) + 600 \<le> ?E div Second \<and> ?E div Second \<le> 2 ^ 63 + 599)"
    by (auto simp: representable_def margin_div)
  have refresh: "expires (state ?r) = Add ?E (- 10 * Minute)" if "path ?r = Refresh"
    using that by (simp add: getAssertion_path_cases split: if_splits)
  have exact: "expires (state ?r) = ?E - 10 * Minute"
    if "path ?r = Refresh" "representable ?E" "representable (?E - 10 * Minute)"
    using refresh [OF that(1)] Add_margin [OF that(2)] that(3) range by simp
  have saturated: "expires (state ?r) = - (2 ^ 63 - 1) * Second + ?E mod Second"
    if "path ?r = Refresh" "representable ?E" "\<not> representable (?E - 10 * Minute)"
  proof -
    have "\<not> (- (2 ^ 63) + 600 \<le> ?E div Second \<and> ?E div Second \<le> 2 ^ 63 + 599)"
      using that(3) range by simp
    moreover have "?E div Second \<le> 2 ^ 63 + 599"
      using that(2) by (simp add: representable_def)
    ultimately have "\<not> - (2 ^ 63) + 600 \<le> ?E div Second"
      by blast
    then show ?thesis
      using refresh [OF that(1)] Add_margin [OF that(2)] by simp
  qed
  have other: "expires (state ?r) = expires w" if "path ?r \<noteq> Refresh"
    using that by (simp add: getAssertion_path_cases split: if_splits)
  have tok: "token (state ?r) = token w"
    by (simp add: getAssertion_path_cases)
  have new: "expires w0 = zeroTime"
    if "NewWorkloadIdentityFederationCredential newCAC env options0 = Inr w0"
    using that by (auto simp: New_unfold construct_def Let_def split: sum.splits)
  show ?thesis
    using range exact saturated other tok new by blast
qed

theorem expiry_margin_witness:
  "path (getAssertion (scenarioCredential (scenarioNow + 3600 * Second)) scenarioNow scenarioNow) =
     Refresh \<and>
   representable (scenarioNow + 3600 * Second) \<and>
   representable (scenarioNow + 3600 * Second - 10 * Minute) \<and>
   expires (state (getAssertion (scenarioCredential (scenarioNow + 3600 * Second))
     scenarioNow scenarioNow)) = scenarioNow + 3600 * Second - 10 * Minute \<and>
   path (getAssertion (scenarioCredential earlyExpiry) scenarioNow scenarioNow) = Refresh \<and>
   representable earlyExpiry \<and>
   \<not> representable (earlyExpiry - 10 * Minute) \<and>
   expires (state (getAssertion (scenarioCredential earlyExpiry) scenarioNow scenarioNow)) =
     - (2 ^ 63 - 1) * Second \<and>
   path (getAssertion ((scenarioCredential (scenarioNow + 3600 * Second))
     \<lparr>expires := scenarioNow + 3000 * Second\<rparr>) scenarioNow scenarioNow) \<noteq> Refresh \<and>
   expires (state (getAssertion ((scenarioCredential (scenarioNow + 3600 * Second))
     \<lparr>expires := scenarioNow + 3000 * Second\<rparr>) scenarioNow scenarioNow)) =
     scenarioNow + 3000 * Second \<and>
   NewWorkloadIdentityFederationCredential acceptingCollaborator scenarioEnv None =
     Inr (scenarioCredential zeroTime) \<and>
   expires (scenarioCredential zeroTime) = zeroTime"
  using
    expiry_margin [where w = "scenarioCredential (scenarioNow + 3600 * Second)"
      and ?now1.0 = scenarioNow and ?now2.0 = scenarioNow and newCAC = acceptingCollaborator
      and env = scenarioEnv and ?options0.0 = None and ?w0.0 = "scenarioCredential zeroTime"]
    expiry_margin [where w = "scenarioCredential earlyExpiry"
      and ?now1.0 = scenarioNow and ?now2.0 = scenarioNow and newCAC = acceptingCollaborator
      and env = scenarioEnv and ?options0.0 = None and ?w0.0 = "scenarioCredential zeroTime"]
    expiry_margin [where w = "(scenarioCredential (scenarioNow + 3600 * Second))
        \<lparr>expires := scenarioNow + 3000 * Second\<rparr>"
      and ?now1.0 = scenarioNow and ?now2.0 = scenarioNow and newCAC = acceptingCollaborator
      and env = scenarioEnv and ?options0.0 = None and ?w0.0 = "scenarioCredential zeroTime"]
  by (simp add: scenario_defs New_eval getAssertion_path_cases time_defs representable_def
      Add_eval)

section \<open>The fast path\<close>

text \<open>
  C2. In a state \<open>w\<close> and for any sequence of calls each of which reads, at line 109, a
  clock strictly before the cached expiry of \<open>w\<close>: every call returns the cached
  assertion of \<open>w\<close> with a nil error on the read-locked path, and leaves the whole
  credential state equal to \<open>w\<close>.
\<close>

theorem fast_path_idempotent:
  assumes "\<forall>c \<in> set clocks. Before (fst c) (expires w)"
  shows "length (getAssertion_calls w clocks) = length clocks \<and>
         list_all (\<lambda>r. ret r = assertion w \<and> err r = None \<and> state r = w \<and> path r = FastPath)
           (getAssertion_calls w clocks)"
  using assms
  by (induction clocks) (simp_all add: getAssertion_path_cases Let_def time_defs)

theorem fast_path_idempotent_witness:
  "Before scenarioNow (scenarioNow + 3000 * Second) \<and>
   Before (scenarioNow + Second) (scenarioNow + 3000 * Second) \<and>
   list_all
     (\<lambda>r. ret r = ''tok1'' \<and> err r = None \<and>
        state r = (scenarioCredential (scenarioNow + 3600 * Second))
          \<lparr>assertion := ''tok1'', expires := scenarioNow + 3000 * Second\<rparr> \<and>
        path r = FastPath)
     (getAssertion_calls
        ((scenarioCredential (scenarioNow + 3600 * Second))
          \<lparr>assertion := ''tok1'', expires := scenarioNow + 3000 * Second\<rparr>)
        [(scenarioNow, scenarioNow), (scenarioNow + Second, scenarioNow + Second)])"
  using
    fast_path_idempotent [where w = "(scenarioCredential (scenarioNow + 3600 * Second))
        \<lparr>assertion := ''tok1'', expires := scenarioNow + 3000 * Second\<rparr>"
      and clocks = "[(scenarioNow, scenarioNow), (scenarioNow + Second, scenarioNow + Second)]"]
  by (simp add: scenario_defs time_defs)

section \<open>Resolution of the configuration\<close>

text \<open>
  C3. With \<open>opts\<close> the options the constructor works on (the given ones, or the zero
  options for nil): a non-empty client ID, token value or tenant ID of the options is
  the one the constructor goes on with, whatever the environment holds, the other two
  fields being resolved; when the options' field is empty and the environment does not
  supply it (the variable is unset; for the token also when it is set to the empty
  string), the constructor returns that field's error, the fields checked before it
  being resolved; and with no options and an empty environment it returns the client
  ID's error, the field checked first.
\<close>

theorem configuration_precedence:
  assumes "opts = defaultOptions options0"
  shows
    "(ClientID opts \<noteq> '''' \<and> resolveToken env opts = Inr tok \<and>
      resolveTenantID env opts = Inr tid \<longrightarrow>
        NewWorkloadIdentityFederationCredential newCAC env options0 =
          construct newCAC opts (ClientID opts) tok tid) \<and>
     (resolveClientID env opts = Inr cid \<and> AccessToken (FederatedToken opts) \<noteq> '''' \<and>
      resolveTenantID env opts = Inr tid \<longrightarrow>
        NewWorkloadIdentityFederationCredential newCAC env options0 =
          construct newCAC opts cid (FederatedToken opts) tid) \<and>
     (resolveClientID env opts = Inr cid \<and> resolveToken env opts = Inr tok \<and>
      TenantID opts \<noteq> '''' \<longrightarrow>
        NewWorkloadIdentityFederationCredential newCAC env options0 =
          construct newCAC opts cid tok (TenantID opts)) \<and>
     (ClientID opts = '''' \<and> env azureClientID = None \<longrightarrow>
        NewWorkloadIdentityFederationCredential newCAC env options0 =
          Inl errorClientIDNotSpecified) \<and>
     (resolveClientID env opts = Inr cid \<and> AccessToken (FederatedToken opts) = '''' \<and>
      (env azureFederatedTokentoken = None \<or> env azureFederatedTokentoken = Some '''') \<longrightarrow>
        NewWorkloadIdentityFederationCredential newCAC env options0 =
          Inl errorTokenNotSpecified) \<and>
     (resolveClientID env opts = Inr cid \<and> resolveToken env opts = Inr tok \<and>
      TenantID opts = '''' \<and> env azureTenantID = None \<longrightarrow>
        NewWorkloadIdentityFederationCredential newCAC env options0 =
          Inl errorTenantIDNotSpecified) \<and>
     NewWorkloadIdentityFederationCredential newCAC Map.empty None =
       Inl errorClientIDNotSpecified"
proof -
  have none: "NewWorkloadIdentityFederationCredential newCAC Map.empty None =
      Inl errorClientIDNotSpecified"
    by (simp add: New_unfold defaultOptions_def zeroOptions_def resolveClientID_env)
  show ?thesis
    unfolding assms
    by (intro conjI impI none)
      (auto simp: New_unfold resolveClientID_option resolveToken_option resolveTenantID_option
        resolveClientID_env resolveToken_env resolveTenantID_env)
qed

theorem configuration_precedence_witness:
  "NewWorkloadIdentityFederationCredential acceptingCollaborator scenarioEnv
     (Some overridingOptions) =
     Inr \<lparr>assertion = '''', token = zeroToken\<lparr>AccessToken := ''opt-token''\<rparr>,
          cred = Some (''opt-tenant'', ''opt-client''), expires = zeroTime\<rparr> \<and>
   NewWorkloadIdentityFederationCredential acceptingCollaborator Map.empty None =
     Inl errorClientIDNotSpecified \<and>
   NewWorkloadIdentityFederationCredential acceptingCollaborator
     [azureClientID \<mapsto> ''abc''] None = Inl errorTokenNotSpecified \<and>
   NewWorkloadIdentityFederationCredential acceptingCollaborator
     [azureClientID \<mapsto> ''abc'', azureFederatedTokentoken \<mapsto> ''tok1''] None =
     Inl errorTenantIDNotSpecified"
  using
    configuration_precedence [where opts = overridingOptions
      and ?options0.0 = "Some overridingOptions" and env = scenarioEnv
      and newCAC = acceptingCollaborator and cid = "''opt-client''"
      and tok = "zeroToken\<lparr>AccessToken := ''opt-token''\<rparr>" and tid = "''opt-tenant''"]
    configuration_precedence [where opts = zeroOptions and ?options0.0 = None
      and env = Map.empty and newCAC = acceptingCollaborator]
    configuration_precedence [where opts = zeroOptions and ?options0.0 = None
      and env = "[azureClientID \<mapsto> ''abc'']" and newCAC = acceptingCollaborator
      and cid = "''abc''"]
    configuration_precedence [where opts = zeroOptions and ?options0.0 = None
      and env = "[azureClientID \<mapsto> ''abc'', azureFederatedTokentoken \<mapsto> ''tok1'']"
      and newCAC = acceptingCollaborator and cid = "''abc''"
      and tok = "zeroToken\<lparr>AccessToken := ''tok1''\<rparr>"]
  by (simp add: scenario_defs New_eval)

section \<open>An empty token value in the options\<close>

text \<open>
  In the environment of the first scenario, options whose token value is the empty
  string do not make the constructor fail: it takes the token value from the
  environment and returns a credential.
\<close>

theorem empty_option_token_not_missing:
  "NewWorkloadIdentityFederationCredential acceptingCollaborator scenarioEnv
     (Some (zeroOptions\<lparr>FederatedToken := zeroToken\<lparr>AccessToken := ''''\<rparr>\<rparr>)) =
     Inr (scenarioCredential zeroTime) \<and>
   NewWorkloadIdentityFederationCredential acceptingCollaborator scenarioEnv
     (Some (zeroOptions\<lparr>FederatedToken := zeroToken\<lparr>AccessToken := ''''\<rparr>\<rparr>)) \<noteq>
     Inl errorTokenNotSpecified"
  by (simp add: scenario_defs New_eval)

text \<open>
  C4, as amended. When the three environment variables are set, the token's one to a
  non-empty value \<open>v\<close>, and the options' token value is the empty string, the
  constructor does not return the token's error: it goes on to the collaborator with
  the options' token in which only the value is replaced by \<open>v\<close>, and with the client
  ID and tenant ID of the options, or of the environment where the options' are empty.
\<close>

theorem empty_option_token_falls_back:
  assumes "opts = defaultOptions options0"
    and "env azureClientID = Some c"
    and "env azureTenantID = Some t"
    and "env azureFederatedTokentoken = Some v" and "v \<noteq> ''''"
    and "AccessToken (FederatedToken opts) = ''''"
  shows "NewWorkloadIdentityFederationCredential newCAC env options0 =
           construct newCAC opts (if ClientID opts = '''' then c else ClientID opts)
             ((FederatedToken opts)\<lparr>AccessToken := v\<rparr>)
             (if TenantID opts = '''' then t else TenantID opts) \<and>
         NewWorkloadIdentityFederationCredential newCAC env options0 \<noteq>
           Inl errorTokenNotSpecified"
proof -
  have cid: "resolveClientID env opts = Inr (if ClientID opts = '''' then c else ClientID opts)"
    using assms(2) by (simp add: resolveClientID_option resolveClientID_env)
  have tid: "resolveTenantID env opts = Inr (if TenantID opts = '''' then t else TenantID opts)"
    using assms(3) by (simp add: resolveTenantID_option resolveTenantID_env)
  have tok: "resolveToken env opts = Inr ((FederatedToken opts)\<lparr>AccessToken := v\<rparr>)"
    using assms(4,5,6) by (simp add: resolveToken_env)
  have eq: "NewWorkloadIdentityFederationCredential newCAC env options0 =
           construct newCAC opts (if ClientID opts = '''' then c else ClientID opts)
             ((FederatedToken opts)\<lparr>AccessToken := v\<rparr>)
             (if TenantID opts = '''' then t else TenantID opts)"
    using cid tid tok assms(1) by (simp add: New_unfold)
  show ?thesis
    using eq construct_no_config_error by metis
qed

theorem empty_option_token_falls_back_witness:
  "NewWorkloadIdentityFederationCredential acceptingCollaborator scenarioEnv
     (Some (overridingOptions\<lparr>FederatedToken := zeroToken\<lparr>Expiry := scenarioNow\<rparr>\<rparr>)) =
     Inr \<lparr>assertion = '''', token = zeroToken\<lparr>AccessToken := ''tok1'', Expiry := scenarioNow\<rparr>,
          cred = Some (''opt-tenant'', ''opt-client''), expires = zeroTime\<rparr>"
  using
    empty_option_token_falls_back [where
      opts = "overridingOptions\<lparr>FederatedToken := zeroToken\<lparr>Expiry := scenarioNow\<rparr>\<rparr>"
      and ?options0.0 =
        "Some (overridingOptions\<lparr>FederatedToken := zeroToken\<lparr>Expiry := scenarioNow\<rparr>\<rparr>)"
      and env = scenarioEnv and c = "''abc''" and t = "''def''" and v = "''tok1''"
      and newCAC = acceptingCollaborator]
  by (simp add: scenario_defs New_eval)

section \<open>No failure of \<^verbatim>\<open>getAssertion\<close>\<close>

text \<open>
  C5. \<^verbatim>\<open>getAssertion\<close> never fails: in every state of the credential and at every
  clock reading the returned error is nil, and so is the error of every call of any
  sequence of calls.
\<close>

theorem getAssertion_infallible:
  "err (getAssertion w now1 now2) = None \<and>
   list_all (\<lambda>r. err r = None) (getAssertion_calls w clocks)"
proof
  show "err (getAssertion w now1 now2) = None"
    by (simp add: getAssertion_path_cases)
  show "list_all (\<lambda>r. err r = None) (getAssertion_calls w clocks)"
    by (induction clocks arbitrary: w) (simp_all add: Let_def getAssertion_path_cases)
qed

section \<open>The boundary of the margin\<close>

text \<open>
  A token that expires 10 minutes and 1 second after \<open>scenarioNow\<close>: the call at
  \<open>scenarioNow\<close> recomputes and sets the cached expiry to \<open>scenarioNow\<close> plus 1
  second; read at exactly that instant the cache is not expired (the cached expiry is
  not before the clock), and the call takes the fast path.
\<close>

theorem boundary_instant_still_valid:
  "path (getAssertion (scenarioCredential (scenarioNow + 10 * Minute + Second))
           scenarioNow scenarioNow) = Refresh \<and>
   expires (state (getAssertion (scenarioCredential (scenarioNow + 10 * Minute + Second))
           scenarioNow scenarioNow)) = scenarioNow + Second \<and>
   \<not> Before (expires (state (getAssertion (scenarioCredential (scenarioNow + 10 * Minute + Second))
           scenarioNow scenarioNow))) (scenarioNow + Second) \<and>
   path (getAssertion (state (getAssertion (scenarioCredential (scenarioNow + 10 * Minute + Second))
           scenarioNow scenarioNow)) (scenarioNow + Second) (scenarioNow + Second)) = FastPath"
  by (simp add: scenario_defs zeroToken_def getAssertion_path_cases time_defs Add_eval)

text \<open>
  C6, as amended. For a representable reference time \<open>t0\<close> and a credential whose
  token expires at the representable instant \<open>t0\<close> plus 10 minutes plus 1 second and
  whose cache is expired at \<open>t0\<close>, let \<open>w'\<close> be the state after the call at \<open>t0\<close>.
  That call recomputes, and the cached expiry of \<open>w'\<close> is \<open>t0\<close> plus 1 second. A call
  on \<open>w'\<close> takes the fast path exactly when its clock reading is not after \<open>t0\<close> plus
  1 second: the cache is valid when read at \<open>t0\<close> and still valid when read at \<open>t0\<close>
  plus 1 second, and it is expired from the next nanosecond on.
\<close>

theorem refresh_transition:
  assumes "representable t0"
    and "representable (Expiry (token w))"
    and "Expiry (token w) = t0 + 10 * Minute + Second"
    and "Before (expires w) t0"
    and "w' = state (getAssertion w t0 t0)"
  shows "path (getAssertion w t0 t0) = Refresh \<and>
         expires w' = t0 + Second \<and>
         path (getAssertion w' t0 now2) = FastPath \<and>
         path (getAssertion w' (t0 + Second) now2) = FastPath \<and>
         path (getAssertion w' (t0 + Second + 1) now2) \<noteq> FastPath \<and>
         (path (getAssertion w' t now2) = FastPath) = (t \<le> t0 + Second)"
proof -
  let ?E = "Expiry (token w)"
  have E: "?E = t0 + 601 * Second"
    using assms(3) by (simp add: Minute_def)
  have "(t0 + 601 * Second) div Second = 601 + t0 div Second"
    by (rule div_mult_self1) (simp add: Second_def)
  then have "- (2 ^ 63) + 600 \<le> ?E div Second"
    using E assms(1) by (simp add: representable_def)
  then have "Add ?E (- 10 * Minute) = ?E - 10 * Minute"
    using Add_margin [OF assms(2)] by simp
  then have margin: "Add ?E (- 10 * Minute) = t0 + Second"
    using assms(3) by simp
  have first: "path (getAssertion w t0 t0) = Refresh \<and> expires w' = t0 + Second"
    using assms(4,5) margin by (simp add: getAssertion_path_cases Before_def)
  then have fast: "(path (getAssertion w' u now2) = FastPath) = (u \<le> t0 + Second)" for u
    by (auto simp: getAssertion_path_cases)
  have "path (getAssertion w' t0 now2) = FastPath"
    using fast [of t0] by (simp add: Second_def)
  moreover have "path (getAssertion w' (t0 + Second) now2) = FastPath"
    using fast [of "t0 + Second"] by simp
  moreover have "path (getAssertion w' (t0 + Second + 1) now2) \<noteq> FastPath"
    using fast [of "t0 + Second + 1"] by simp
  ultimately show ?thesis
    using first fast by blast
qed

theorem refresh_transition_witness:
  "representable scenarioNow \<and>
   representable (scenarioNow + 10 * Minute + Second) \<and>
   path (getAssertion (scenarioCredential (scenarioNow + 10 * Minute + Second))
     scenarioNow scenarioNow) = Refresh \<and>
   path (getAssertion
     ((scenarioCredential (scenarioNow + 10 * Minute + Second))
        \<lparr>assertion := ''tok1'', expires := scenarioNow + Second\<rparr>)
     scenarioNow scenarioNow) = FastPath \<and>
   path (getAssertion
     ((scenarioCredential (scenarioNow + 10 * Minute + Second))
        \<lparr>assertion := ''tok1'', expires := scenarioNow + Second\<rparr>)
     (scenarioNow + Second) (scenarioNow + Second)) = FastPath \<and>
   path (getAssertion
     ((scenarioCredential (scenarioNow + 10 * Minute + Second))
        \<lparr>assertion := ''tok1'', expires := scenarioNow + Second\<rparr>)
     (scenarioNow + Second + 1) (scenarioNow + Second + 1)) = Refresh"
  using
    refresh_transition [where w = "scenarioCredential (scenarioNow + 10 * Minute + Second)"
      and ?t0.0 = scenarioNow
      and w' = "(scenarioCredential (scenarioNow + 10 * Minute + Second))
        \<lparr>assertion := ''tok1'', expires := scenarioNow + Second\<rparr>"
      and t = "scenarioNow + Second + 1" and ?now2.0 = "scenarioNow + Second + 1"]
  by (simp add: scenario_defs zeroToken_def getAssertion_path_cases time_defs
      representable_def Add_eval)

section \<open>The first end-to-end scenario\<close>

text \<open>
  C7. In an environment with \<^verbatim>\<open>AZURE_CLIENT_ID=abc\<close>, \<^verbatim>\<open>AZURE_TENANT_ID=def\<close> and
  \<^verbatim>\<open>AZURE_FEDERATED_TOKEN=tok1\<close>, the constructor called with nil options returns a
  credential as soon as the collaborator's constructor accepts the tenant ID \<open>def\<close>,
  the client ID \<open>abc\<close> and the zero options; and every call of \<^verbatim>\<open>getAssertion\<close> on
  it, one after the other, with clock readings after the zero time, returns \<open>tok1\<close>
  and a nil error.
\<close>

theorem scenario_environment_only:
  assumes "env azureClientID = Some ''abc''"
    and "env azureTenantID = Some ''def''"
    and "env azureFederatedTokentoken = Some ''tok1''"
    and "newCAC ''def'' ''abc''
           \<lparr>caco_AdditionallyAllowedTenants = [], caco_ClientOptions = 0,
            caco_DisableInstanceDiscovery = False\<rparr> = Inr c"
    and "w = \<lparr>assertion = '''', token = zeroToken\<lparr>AccessToken := ''tok1''\<rparr>, cred = Some c,
              expires = zeroTime\<rparr>"
    and "\<forall>k \<in> set clocks. Before zeroTime (fst k) \<and> Before zeroTime (snd k)"
  shows "NewWorkloadIdentityFederationCredential newCAC env None = Inr w \<and>
         length (getAssertion_calls w clocks) = length clocks \<and>
         list_all (\<lambda>r. ret r = ''tok1'' \<and> err r = None) (getAssertion_calls w clocks)"
proof -
  have new: "NewWorkloadIdentityFederationCredential newCAC env None = Inr w"
    using assms(1-5)
    by (simp add: New_unfold defaultOptions_def zeroOptions_def resolveClientID_env
        resolveToken_env resolveTenantID_env construct_def zeroToken_def)
  have calls: "list_all (\<lambda>r. ret r = ''tok1'' \<and> err r = None) (getAssertion_calls w clocks)"
    using assms(6) by (intro getAssertion_calls_cached) (simp_all add: assms(5) zeroToken_def)
  show ?thesis
    using new calls by (simp add: getAssertion_calls_length)
qed

theorem scenario_environment_only_witness:
  "NewWorkloadIdentityFederationCredential acceptingCollaborator scenarioEnv None =
     Inr (scenarioCredential zeroTime) \<and>
   map ret (getAssertion_calls (scenarioCredential zeroTime)
     [(scenarioNow, scenarioNow), (scenarioNow + Second, scenarioNow + Second)]) =
     [''tok1'', ''tok1'']"
  using
    scenario_environment_only [where env = scenarioEnv and newCAC = acceptingCollaborator
      and c = "(''def'', ''abc'')" and w = "scenarioCredential zeroTime"
      and clocks = "[(scenarioNow, scenarioNow), (scenarioNow + Second, scenarioNow + Second)]"]
  by (simp add: scenario_defs New_eval getAssertion_path_cases time_defs Add_eval)

section \<open>A token without expiry\<close>

text \<open>
  In the environment of the first scenario, options whose token has an empty value and
  an expiry one hour after \<open>scenarioNow\<close>: the token value of the credential comes
  from the environment variable, its expiry is the options' and not the zero time, and
  of two calls at \<open>scenarioNow\<close> and one second later the second takes the fast path.
\<close>

theorem environment_token_keeps_option_expiry:
  "NewWorkloadIdentityFederationCredential acceptingCollaborator scenarioEnv
     (Some (zeroOptions\<lparr>FederatedToken := zeroToken\<lparr>Expiry := scenarioNow + 3600 * Second\<rparr>\<rparr>)) =
     Inr (scenarioCredential (scenarioNow + 3600 * Second)) \<and>
   AccessToken (token (scenarioCredential (scenarioNow + 3600 * Second))) = ''tok1'' \<and>
   Expiry (token (scenarioCredential (scenarioNow + 3600 * Second))) \<noteq> zeroTime \<and>
   map path (getAssertion_calls (scenarioCredential (scenarioNow + 3600 * Second))
     [(scenarioNow, scenarioNow), (scenarioNow + Second, scenarioNow + Second)]) =
     [Refresh, FastPath]"
  by (simp add: scenario_defs New_eval getAssertion_path_cases time_defs Add_eval)

text \<open>
  C9, as amended. For a credential whose token has the zero expiry, in the state the
  constructor returns or after any recomputation, every call of \<^verbatim>\<open>getAssertion\<close> made
  with clock readings after the zero time takes the refresh branch, never the fast
  path, and leaves the cached expiry at the zero time minus 10 minutes, which is before
  the zero time. The token of a constructed credential has the zero expiry when the
  options' token has it (the environment path replaces only the token value), and in
  particular when the options are nil.
\<close>

theorem zero_expiry_always_refreshes:
  "(Expiry (token w) = zeroTime \<and>
    (expires w = zeroTime \<or> expires w = Add zeroTime (- 10 * Minute)) \<and>
    (\<forall>k \<in> set clocks. Before zeroTime (fst k) \<and> Before zeroTime (snd k)) \<longrightarrow>
      length (getAssertion_calls w clocks) = length clocks \<and>
      list_all (\<lambda>r. path r = Refresh \<and> expires (state r) = Add zeroTime (- 10 * Minute))
        (getAssertion_calls w clocks)) \<and>
   Before (Add zeroTime (- 10 * Minute)) zeroTime \<and>
   (NewWorkloadIdentityFederationCredential newCAC env options0 = Inr w0 \<and>
    Expiry (FederatedToken (defaultOptions options0)) = zeroTime \<longrightarrow>
      Expiry (token w0) = zeroTime \<and> expires w0 = zeroTime) \<and>
   (NewWorkloadIdentityFederationCredential newCAC env None = Inr w0 \<longrightarrow>
      Expiry (token w0) = zeroTime \<and> expires w0 = zeroTime)"
proof -
  have calls: "length (getAssertion_calls w clocks) = length clocks \<and>
      list_all (\<lambda>r. path r = Refresh \<and> expires (state r) = Add zeroTime (- 10 * Minute))
        (getAssertion_calls w clocks)"
    if "Expiry (token w) = zeroTime"
      and "expires w = zeroTime \<or> expires w = Add zeroTime (- 10 * Minute)"
      and "\<forall>k \<in> set clocks. Before zeroTime (fst k) \<and> Before zeroTime (snd k)"
  proof -
    have "expires w \<le> zeroTime"
      using that(2) Add_zeroTime by (auto simp: zeroTime_def)
    then show ?thesis
      using getAssertion_calls_zero_expiry [OF that(1) _ that(3)] getAssertion_calls_length
      by blast
  qed
  have past: "Before (Add zeroTime (- 10 * Minute)) zeroTime"
    using Add_zeroTime by (simp add: Before_def zeroTime_def)
  have new: "Expiry (token w0) = zeroTime \<and> expires w0 = zeroTime"
    if "NewWorkloadIdentityFederationCredential newCAC env opts = Inr w0"
      and "Expiry (FederatedToken (defaultOptions opts)) = zeroTime" for opts
  proof -
    have "Expiry tok = zeroTime" if "resolveToken env (defaultOptions opts) = Inr tok" for tok
      using that \<open>Expiry (FederatedToken (defaultOptions opts)) = zeroTime\<close>
      by (auto simp: resolveToken_def LookupEnv_def Let_def split: if_splits option.splits)
    then show ?thesis
      using that(1)
      by (auto simp: New_unfold construct_def Let_def split: sum.splits)
  qed
  show ?thesis
    using calls past new [of options0] new [of None] defaultOptions_None_Expiry by blast
qed

theorem zero_expiry_always_refreshes_witness:
  "NewWorkloadIdentityFederationCredential acceptingCollaborator scenarioEnv None =
     Inr (scenarioCredential zeroTime) \<and>
   Expiry (token (scenarioCredential zeroTime)) = zeroTime \<and>
   map path (getAssertion_calls (scenarioCredential zeroTime)
     [(scenarioNow, scenarioNow), (scenarioNow + Second, scenarioNow + Second)]) =
     [Refresh, Refresh]"
  using
    zero_expiry_always_refreshes [where w = "scenarioCredential zeroTime"
      and clocks = "[(scenarioNow, scenarioNow), (scenarioNow + Second, scenarioNow + Second)]"
      and newCAC = acceptingCollaborator and env = scenarioEnv and ?options0.0 = None
      and ?w0.0 = "scenarioCredential zeroTime"]
  by (simp add: scenario_defs New_eval getAssertion_path_cases time_defs Add_eval)

section \<open>Empty values in the environment\<close>

text \<open>
  C10. With \<open>opts\<close> the options the constructor works on and the options' field empty:
  when \<^verbatim>\<open>AZURE_FEDERATED_TOKEN\<close> is set to the empty string the constructor returns
  the token's error (the client ID, checked before it, being resolved); when
  \<^verbatim>\<open>AZURE_CLIENT_ID\<close> or \<^verbatim>\<open>AZURE_TENANT_ID\<close> is set to the empty string the
  constructor accepts the empty value and goes on to the collaborator with it, the
  other fields being resolved; and what it returns from there is none of the three
  configuration errors.
\<close>

theorem empty_environment_value_asymmetry:
  assumes "opts = defaultOptions options0"
  shows
    "(AccessToken (FederatedToken opts) = '''' \<and> env azureFederatedTokentoken = Some '''' \<and>
      resolveClientID env opts = Inr cid \<longrightarrow>
        NewWorkloadIdentityFederationCredential newCAC env options0 =
          Inl errorTokenNotSpecified) \<and>
     (ClientID opts = '''' \<and> env azureClientID = Some '''' \<and>
      resolveToken env opts = Inr tok \<and> resolveTenantID env opts = Inr tid \<longrightarrow>
        NewWorkloadIdentityFederationCredential newCAC env options0 =
          construct newCAC opts '''' tok tid) \<and>
     (TenantID opts = '''' \<and> env azureTenantID = Some '''' \<and>
      resolveClientID env opts = Inr cid \<and> resolveToken env opts = Inr tok \<longrightarrow>
        NewWorkloadIdentityFederationCredential newCAC env options0 =
          construct newCAC opts cid tok '''') \<and>
     construct newCAC opts cid tok tid \<noteq> Inl errorClientIDNotSpecified \<and>
     construct newCAC opts cid tok tid \<noteq> Inl errorTokenNotSpecified \<and>
     construct newCAC opts cid tok tid \<noteq> Inl errorTenantIDNotSpecified"
  unfolding assms
  by (intro conjI impI)
    (simp_all add: New_unfold resolveClientID_env resolveToken_env resolveTenantID_env
      construct_no_config_error)

theorem empty_environment_value_asymmetry_witness:
  "NewWorkloadIdentityFederationCredential acceptingCollaborator
     (scenarioEnv(azureFederatedTokentoken \<mapsto> '''')) None = Inl errorTokenNotSpecified \<and>
   NewWorkloadIdentityFederationCredential acceptingCollaborator
     (scenarioEnv(azureClientID \<mapsto> '''')) None =
     Inr ((scenarioCredential zeroTime)\<lparr>cred := Some (''def'', '''')\<rparr>) \<and>
   NewWorkloadIdentityFederationCredential rejectingCollaborator
     (scenarioEnv(azureTenantID \<mapsto> '''')) None =
     Inl (collaboratorError ''invalid tenantID'')"
  using
    empty_environment_value_asymmetry [where opts = zeroOptions and ?options0.0 = None
      and env = "scenarioEnv(azureFederatedTokentoken \<mapsto> '''')" and cid = "''abc''"
      and newCAC = acceptingCollaborator]
    empty_environment_value_asymmetry [where opts = zeroOptions and ?options0.0 = None
      and env = "scenarioEnv(azureClientID \<mapsto> '''')"
      and tok = "zeroToken\<lparr>AccessToken := ''tok1''\<rparr>" and tid = "''def''"
      and newCAC = acceptingCollaborator]
    empty_environment_value_asymmetry [where opts = zeroOptions and ?options0.0 = None
      and env = "scenarioEnv(azureTenantID \<mapsto> '''')"
      and tok = "zeroToken\<lparr>AccessToken := ''tok1''\<rparr>" and cid = "''abc''"
      and newCAC = rejectingCollaborator]
  by (simp add: scenario_defs New_eval)

end
